theory Spec2Isabelle
  imports Main "HOL-Library.Word"
begin

unbundle bit_operations_syntax

section \<open>Data model of \<^verbatim>\<open>jni/main.c\<close>\<close>

text \<open>
  Addresses and registers are machine words of the pointer width of the build
  (\<^verbatim>\<open>uintptr_t\<close>, \<^verbatim>\<open>unsigned long\<close>): the type parameter \<open>'w\<close> is that width, 32 on the
  ARM builds that compile all three methods. Pointer arguments are modelled by the
  values they point to, so the \<^verbatim>\<open>assert(pointer)\<close> checks of the source always pass and
  do not appear. The preprocessor switch \<^verbatim>\<open>__thumb__\<close> is the boolean parameter
  \<open>thumb\<close> of every function whose text depends on it.
\<close>

text \<open>\<^verbatim>\<open>static const size_t address_count_max = 30;\<close>\<close>

definition address_count_max :: nat where
  "address_count_max = 30"

text \<open>
  The registers of \<^verbatim>\<open>struct sigcontext\<close> that the program reads (the structure is declared
  by the platform headers; its other fields are never read).
\<close>

record (overloaded) ('w::len) sigcontext =
  arm_r0 :: "'w word"
  arm_r1 :: "'w word"
  arm_r2 :: "'w word"
  arm_r3 :: "'w word"
  arm_r4 :: "'w word"
  arm_r5 :: "'w word"
  arm_r6 :: "'w word"
  arm_r7 :: "'w word"
  arm_r8 :: "'w word"
  arm_r9 :: "'w word"
  arm_r10 :: "'w word"
  arm_fp :: "'w word"
  arm_ip :: "'w word"
  arm_sp :: "'w word"
  arm_lr :: "'w word"
  arm_pc :: "'w word"

record (overloaded) ('w::len) ucontext_t =
  uc_mcontext :: "'w sigcontext"

text \<open>
  \<^verbatim>\<open>struct BacktraceState\<close>. The array \<^verbatim>\<open>addresses[address_count_max]\<close> is a list; a state
  of the program has exactly \<open>address_count_max\<close> entries in it, of which the first
  \<open>address_count\<close> are the stored addresses.
\<close>

record (overloaded) ('w::len) BacktraceState =
  signal_ucontext :: "'w ucontext_t"
  address_skip_count :: nat
  address_count :: nat
  addresses :: "'w word list"

section \<open>The address collector\<close>

text \<open>\<^verbatim>\<open>BacktraceState_Init\<close>: \<^verbatim>\<open>memset\<close> to zero, then the context and the skip count.\<close>

definition BacktraceState_Init :: "'w ucontext_t \<Rightarrow> ('w::len) BacktraceState" where
  "BacktraceState_Init ucontext =
     \<lparr> signal_ucontext = ucontext,
       address_skip_count = 3,
       address_count = 0,
       addresses = replicate address_count_max 0 \<rparr>"

text \<open>
  The block under \<^verbatim>\<open>#if __thumb__\<close> in \<^verbatim>\<open>BacktraceState_AddAddress\<close>:
  \<^verbatim>\<open>const uintptr_t thumb_bit = 1; ip &= ~thumb_bit;\<close> on a Thumb build, nothing otherwise.
\<close>

definition reset_thumb_bit :: "bool \<Rightarrow> ('w::len) word \<Rightarrow> 'w word" where
  "reset_thumb_bit thumb ip =
     (if thumb then (let thumb_bit = 1 in ip AND NOT thumb_bit) else ip)"

text \<open>
  \<^verbatim>\<open>BacktraceState_AddAddress\<close>: the returned pair is the \<^verbatim>\<open>bool\<close> result and the state
  after the call.
\<close>

definition BacktraceState_AddAddress ::
  "bool \<Rightarrow> ('w::len) BacktraceState \<Rightarrow> 'w word \<Rightarrow> bool \<times> 'w BacktraceState" where
  "BacktraceState_AddAddress thumb state ip0 =
     (if address_count state \<ge> address_count_max then (False, state)
      else
        let ip = reset_thumb_bit thumb ip0
        in
          if address_count state > 0 \<and> ip = 0 then (True, state)
          else if address_count state > 0
                  \<and> ip = addresses state ! (address_count state - 1) then (True, state)
          else (True, state\<lparr> addresses := (addresses state)[address_count state := ip],
                              address_count := address_count state + 1 \<rparr>))"

text \<open>
  The stored addresses are the first \<open>address_count\<close> entries of the array.
\<close>

definition stored_addresses :: "('w::len) BacktraceState \<Rightarrow> 'w word list" where
  "stored_addresses state = take (address_count state) (addresses state)"

text \<open>
  The invariant of the data model, for a build with the given \<open>thumb\<close> switch: the array
  has its declared size, the count does not run past it, and on a Thumb build no stored
  address carries the Thumb bit.
\<close>

definition BacktraceState_valid :: "bool \<Rightarrow> ('w::len) BacktraceState \<Rightarrow> bool" where
  "BacktraceState_valid thumb state \<longleftrightarrow>
     length (addresses state) = address_count_max
     \<and> address_count state \<le> address_count_max
     \<and> (thumb \<longrightarrow> (\<forall>a \<in> set (stored_addresses state). a AND 1 = 0))"

text \<open>A sequence of \<^verbatim>\<open>BacktraceState_AddAddress\<close> calls on one state, in order.\<close>

fun AddAddress_calls ::
  "bool \<Rightarrow> ('w::len) BacktraceState \<Rightarrow> 'w word list \<Rightarrow> 'w BacktraceState" where
  "AddAddress_calls thumb state [] = state"
| "AddAddress_calls thumb state (ip # ips) =
     AddAddress_calls thumb (snd (BacktraceState_AddAddress thumb state ip)) ips"

section \<open>Method 1: \<^verbatim>\<open>LibunwindWithRegisters\<close>\<close>

datatype unw_regnum =
    UNW_ARM_R0 | UNW_ARM_R1 | UNW_ARM_R2 | UNW_ARM_R3
  | UNW_ARM_R4 | UNW_ARM_R5 | UNW_ARM_R6 | UNW_ARM_R7
  | UNW_ARM_R8 | UNW_ARM_R9 | UNW_ARM_R10 | UNW_ARM_R11
  | UNW_ARM_R12 | UNW_ARM_R13 | UNW_ARM_R14 | UNW_ARM_R15
  | UNW_REG_IP | UNW_REG_SP

text \<open>
  The libunwind functions the method calls belong to the platform, not to the program:
  they are parameters, collected in one record over an abstract cursor type \<open>'c\<close>.
  \<open>unw_init_local\<close> is the cursor that \<^verbatim>\<open>unw_getcontext\<close> and \<^verbatim>\<open>unw_init_local\<close> produce
  inside the handler. \<open>unw_get_reg\<close> is \<open>None\<close> when the call fails and leaves its output
  argument alone. \<open>unw_step\<close> gives its return code and the cursor after the call.
\<close>

record (overloaded) ('c, 'w::len) libunwind =
  unw_init_local :: "'c"
  unw_set_reg :: "'c \<Rightarrow> unw_regnum \<Rightarrow> 'w word \<Rightarrow> 'c"
  unw_get_reg :: "'c \<Rightarrow> unw_regnum \<Rightarrow> 'w word option"
  unw_step :: "'c \<Rightarrow> int \<times> 'c"

text \<open>The eighteen \<^verbatim>\<open>unw_set_reg\<close> calls, in the order of the source.\<close>

definition LibunwindWithRegisters_set_registers ::
  "('c, 'w::len) libunwind \<Rightarrow> 'w sigcontext \<Rightarrow> 'c \<Rightarrow> 'c" where
  "LibunwindWithRegisters_set_registers lu signal_mcontext unw_cursor =
     foldl (\<lambda>cursor (regnum, val). unw_set_reg lu cursor regnum val) unw_cursor
       [(UNW_ARM_R0, arm_r0 signal_mcontext),
        (UNW_ARM_R1, arm_r1 signal_mcontext),
        (UNW_ARM_R2, arm_r2 signal_mcontext),
        (UNW_ARM_R3, arm_r3 signal_mcontext),
        (UNW_ARM_R4, arm_r4 signal_mcontext),
        (UNW_ARM_R5, arm_r5 signal_mcontext),
        (UNW_ARM_R6, arm_r6 signal_mcontext),
        (UNW_ARM_R7, arm_r7 signal_mcontext),
        (UNW_ARM_R8, arm_r8 signal_mcontext),
        (UNW_ARM_R9, arm_r9 signal_mcontext),
        (UNW_ARM_R10, arm_r10 signal_mcontext),
        (UNW_ARM_R11, arm_fp signal_mcontext),
        (UNW_ARM_R12, arm_ip signal_mcontext),
        (UNW_ARM_R13, arm_sp signal_mcontext),
        (UNW_ARM_R14, arm_lr signal_mcontext),
        (UNW_ARM_R15, arm_pc signal_mcontext),
        (UNW_REG_IP, arm_pc signal_mcontext),
        (UNW_REG_SP, arm_sp signal_mcontext)]"

text \<open>
  The \<^verbatim>\<open>while (unw_step(&unw_cursor) > 0)\<close> loop. Nothing bounds the number of steps when
  every address is ignored as a duplicate or as null, so the loop is a partial function:
  \<open>None\<close> is a walk that never returns.
\<close>

partial_function (option) LibunwindWithRegisters_while ::
  "('c, 'w::len) libunwind \<Rightarrow> bool \<Rightarrow> 'c \<Rightarrow> 'w BacktraceState \<Rightarrow> 'w BacktraceState option" where
  "LibunwindWithRegisters_while lu thumb unw_cursor state =
     (case unw_step lu unw_cursor of (rc, unw_cursor') \<Rightarrow>
        if rc > 0 then
          (let ip = (case unw_get_reg lu unw_cursor' UNW_REG_IP of None \<Rightarrow> 0 | Some v \<Rightarrow> v)
           in case BacktraceState_AddAddress thumb state ip of (ok, state') \<Rightarrow>
                if \<not> ok then Some state'
                else LibunwindWithRegisters_while lu thumb unw_cursor' state')
        else Some state)"

definition LibunwindWithRegisters ::
  "('c, 'w::len) libunwind \<Rightarrow> bool \<Rightarrow> 'w BacktraceState \<Rightarrow> 'w BacktraceState option" where
  "LibunwindWithRegisters lu thumb state =
     (let signal_mcontext = uc_mcontext (signal_ucontext state);
          unw_cursor = LibunwindWithRegisters_set_registers lu signal_mcontext (unw_init_local lu);
          state1 = snd (BacktraceState_AddAddress thumb state (arm_pc signal_mcontext))
      in LibunwindWithRegisters_while lu thumb unw_cursor state1)"

section \<open>Method 2: \<^verbatim>\<open>UnwindBacktraceWithRegisters\<close>\<close>

text \<open>The register numbers \<^verbatim>\<open>REG_R0\<close> to \<^verbatim>\<open>REG_R15\<close> of the platform's \<^verbatim>\<open>ucontext.h\<close>.\<close>

datatype reg =
    REG_R0 | REG_R1 | REG_R2 | REG_R3 | REG_R4 | REG_R5 | REG_R6 | REG_R7
  | REG_R8 | REG_R9 | REG_R10 | REG_R11 | REG_R12 | REG_R13 | REG_R14 | REG_R15

text \<open>
  \<^verbatim>\<open>struct _Unwind_Context\<close> belongs to the unwinder of the platform. What the program
  does to it is to set the sixteen core registers, so the context is the file of those
  registers and \<^verbatim>\<open>_Unwind_SetGR\<close> is the update of one of them. \<^verbatim>\<open>_Unwind_GetIP\<close> is a
  parameter of the callbacks.
\<close>

type_synonym 'w Unwind_Context = "reg \<Rightarrow> 'w word"

definition Unwind_SetGR :: "'w Unwind_Context \<Rightarrow> reg \<Rightarrow> 'w word \<Rightarrow> 'w Unwind_Context" where
  "Unwind_SetGR unwind_context r v = unwind_context (r := v)"

text \<open>The two reason codes the callbacks return.\<close>

datatype Unwind_Reason_Code = URC_NO_REASON | URC_END_OF_STACK

definition ProcessRegisters ::
  "bool \<Rightarrow> ('w::len) Unwind_Context \<Rightarrow> 'w BacktraceState
     \<Rightarrow> 'w Unwind_Context \<times> 'w BacktraceState" where
  "ProcessRegisters thumb unwind_context state =
     (let signal_mcontext = uc_mcontext (signal_ucontext state);
          unwind_context' =
            foldl (\<lambda>ctx (r, val). Unwind_SetGR ctx r val) unwind_context
              [(REG_R0, arm_r0 signal_mcontext),
               (REG_R1, arm_r1 signal_mcontext),
               (REG_R2, arm_r2 signal_mcontext),
               (REG_R3, arm_r3 signal_mcontext),
               (REG_R4, arm_r4 signal_mcontext),
               (REG_R5, arm_r5 signal_mcontext),
               (REG_R6, arm_r6 signal_mcontext),
               (REG_R7, arm_r7 signal_mcontext),
               (REG_R8, arm_r8 signal_mcontext),
               (REG_R9, arm_r9 signal_mcontext),
               (REG_R10, arm_r10 signal_mcontext),
               (REG_R11, arm_fp signal_mcontext),
               (REG_R12, arm_ip signal_mcontext),
               (REG_R13, arm_sp signal_mcontext),
               (REG_R14, arm_lr signal_mcontext),
               (REG_R15, arm_pc signal_mcontext)]
      in (unwind_context',
          snd (BacktraceState_AddAddress thumb state (arm_pc signal_mcontext))))"

text \<open>
  The callback returns its reason code, the context as it leaves it, and the state.
\<close>

definition UnwindBacktraceWithRegistersCallback ::
  "bool \<Rightarrow> (('w::len) Unwind_Context \<Rightarrow> 'w word) \<Rightarrow> 'w Unwind_Context \<Rightarrow> 'w BacktraceState
     \<Rightarrow> Unwind_Reason_Code \<times> 'w Unwind_Context \<times> 'w BacktraceState" where
  "UnwindBacktraceWithRegistersCallback thumb Unwind_GetIP unwind_context state =
     (if address_count state = 0 then
        (case ProcessRegisters thumb unwind_context state of
           (unwind_context', state') \<Rightarrow> (URC_NO_REASON, unwind_context', state'))
      else
        let ip = Unwind_GetIP unwind_context
        in case BacktraceState_AddAddress thumb state ip of (ok, state') \<Rightarrow>
             if \<not> ok then (URC_END_OF_STACK, unwind_context, state')
             else (URC_NO_REASON, unwind_context, state'))"

section \<open>Method 3: \<^verbatim>\<open>UnwindBacktraceWithSkipping\<close>\<close>

text \<open>
  This callback never writes to the unwind context, so the context type is left open
  (\<open>'ctx\<close>) and only the reason code and the state are returned.
\<close>

definition UnwindBacktraceWithSkippingCallback ::
  "bool \<Rightarrow> ('ctx \<Rightarrow> ('w::len) word) \<Rightarrow> 'ctx \<Rightarrow> 'w BacktraceState
     \<Rightarrow> Unwind_Reason_Code \<times> 'w BacktraceState" where
  "UnwindBacktraceWithSkippingCallback thumb Unwind_GetIP unwind_context state =
     (if address_skip_count state > 0 then
        (URC_NO_REASON, state\<lparr> address_skip_count := address_skip_count state - 1 \<rparr>)
      else
        let ip = Unwind_GetIP unwind_context
        in case BacktraceState_AddAddress thumb state ip of (ok, state') \<Rightarrow>
             if \<not> ok then (URC_END_OF_STACK, state')
             else (URC_NO_REASON, state'))"

text \<open>
  Modelled from the spec: \<^verbatim>\<open>_Unwind_Backtrace\<close>, a function of the platform's unwind runtime
  and not of this repository. It is the mechanism that iterates the call frames and
  invokes the callback once per frame, until the callback signals stop (any code other
  than \<^verbatim>\<open>_URC_NO_REASON\<close>) or the frames end. The frames it presents, innermost first, are
  the list \<open>frames\<close>.
\<close>

fun Unwind_Backtrace ::
  "('ctx \<Rightarrow> 's \<Rightarrow> Unwind_Reason_Code \<times> 's) \<Rightarrow> 'ctx list \<Rightarrow> 's \<Rightarrow> 's" where
  "Unwind_Backtrace trace [] state = state"
| "Unwind_Backtrace trace (unwind_context # frames) state =
     (case trace unwind_context state of (code, state') \<Rightarrow>
        if code = URC_NO_REASON then Unwind_Backtrace trace frames state' else state')"

definition UnwindBacktraceWithSkipping ::
  "bool \<Rightarrow> ('ctx \<Rightarrow> ('w::len) word) \<Rightarrow> 'ctx list \<Rightarrow> 'w BacktraceState \<Rightarrow> 'w BacktraceState" where
  "UnwindBacktraceWithSkipping thumb Unwind_GetIP frames state =
     Unwind_Backtrace (UnwindBacktraceWithSkippingCallback thumb Unwind_GetIP) frames state"

section \<open>\<^verbatim>\<open>PrintBacktrace\<close>\<close>

text \<open>A failed \<^verbatim>\<open>assert\<close> aborts the process.\<close>

datatype error = AssertionFailed

text \<open>\<^verbatim>\<open>Dl_info\<close>; a \<^verbatim>\<open>const char*\<close> field is \<open>None\<close> when it is \<^verbatim>\<open>NULL\<close>.\<close>

record (overloaded) ('w::len) Dl_info =
  dli_fname :: "string option"
  dli_fbase :: "'w word"
  dli_sname :: "string option"
  dli_saddr :: "'w word"

text \<open>\<^verbatim>\<open>Dl_info info = {};\<close>\<close>

definition Dl_info_zero :: "('w::len) Dl_info" where
  "Dl_info_zero = \<lparr> dli_fname = None, dli_fbase = 0, dli_sname = None, dli_saddr = 0 \<rparr>"

text \<open>The conversions of \<^verbatim>\<open>printf\<close> that the format string uses.\<close>

fun decimal :: "nat \<Rightarrow> string" where
  "decimal n =
     (if n < 10 then [''0123456789'' ! n]
      else decimal (n div 10) @ [''0123456789'' ! (n mod 10)])"

fun hexadecimal :: "nat \<Rightarrow> string" where
  "hexadecimal n =
     (if n < 16 then [''0123456789abcdef'' ! n]
      else hexadecimal (n div 16) @ [''0123456789abcdef'' ! (n mod 16)])"

text \<open>\<^verbatim>\<open>"  #%02zu:  0x%lx  %s\n"\<close>\<close>

definition printf_frame :: "nat \<Rightarrow> ('w::len) word \<Rightarrow> string \<Rightarrow> string" where
  "printf_frame frame_index relative_address symbol_name =
     ''  #'' @ replicate (2 - length (decimal frame_index)) (CHR ''0'') @ decimal frame_index
     @ '':  0x'' @ hexadecimal (unat relative_address)
     @ ''  '' @ symbol_name @ [CHR 0x0A]"

text \<open>
  The body of the loop, for one frame. \<open>dladdr\<close> and \<open>cxa_demangle\<close> are the platform's
  functions, taken as parameters: \<open>dladdr\<close> gets the address and the \<^verbatim>\<open>Dl_info\<close> it is
  given, and returns its result code and the \<^verbatim>\<open>Dl_info\<close> after the call;
  \<open>cxa_demangle\<close> returns \<open>None\<close> for \<^verbatim>\<open>NULL\<close>. \<^verbatim>\<open>symbol_name\<close> is never \<^verbatim>\<open>NULL\<close>, so the
  second \<^verbatim>\<open>assert\<close> always passes. The result is the line printed, or the failed
  assertion.
\<close>

definition PrintBacktrace_frame ::
  "(('w::len) word \<Rightarrow> 'w Dl_info \<Rightarrow> int \<times> 'w Dl_info) \<Rightarrow> (string \<Rightarrow> string option)
     \<Rightarrow> nat \<Rightarrow> 'w word \<Rightarrow> error + string" where
  "PrintBacktrace_frame dladdr cxa_demangle frame_index address =
     (if address = 0 then Inl AssertionFailed
      else
        case dladdr address Dl_info_zero of (rc, info) \<Rightarrow>
          let symbol_name =
                (case dli_sname info of
                   Some sname \<Rightarrow> if rc \<noteq> 0 then sname else ''''
                 | None \<Rightarrow> '''');
              relative_address = address - dli_fbase info;
              symbol_name' =
                (case cxa_demangle symbol_name of
                   Some demangled \<Rightarrow> demangled
                 | None \<Rightarrow> symbol_name)
          in Inr (printf_frame frame_index relative_address symbol_name'))"

text \<open>
  The \<^verbatim>\<open>for\<close> loop from \<open>frame_index\<close> on: the lines printed, and the assertion that
  stopped the loop if one did. In a state of the program \<open>frame_count\<close>, the address
  count, is at most \<open>address_count_max\<close>, so every index read is inside the array.
\<close>

function PrintBacktrace_for ::
  "(('w::len) word \<Rightarrow> 'w Dl_info \<Rightarrow> int \<times> 'w Dl_info) \<Rightarrow> (string \<Rightarrow> string option)
     \<Rightarrow> 'w BacktraceState \<Rightarrow> nat \<Rightarrow> nat \<Rightarrow> string list \<times> error option" where
  "PrintBacktrace_for dladdr cxa_demangle state frame_count frame_index =
     (if frame_index < frame_count then
        (case PrintBacktrace_frame dladdr cxa_demangle frame_index
                (addresses state ! frame_index) of
           Inl e \<Rightarrow> ([], Some e)
         | Inr line \<Rightarrow>
             (case PrintBacktrace_for dladdr cxa_demangle state frame_count (frame_index + 1) of
                (out, r) \<Rightarrow> (line # out, r)))
      else ([], None))"
  by pat_completeness auto
termination
  by (relation "measure (\<lambda>(dladdr, cxa_demangle, state, frame_count, frame_index).
                  frame_count - frame_index)") auto

definition PrintBacktrace ::
  "(('w::len) word \<Rightarrow> 'w Dl_info \<Rightarrow> int \<times> 'w Dl_info) \<Rightarrow> (string \<Rightarrow> string option)
     \<Rightarrow> 'w BacktraceState \<Rightarrow> string list \<times> error option" where
  "PrintBacktrace dladdr cxa_demangle state =
     PrintBacktrace_for dladdr cxa_demangle state (address_count state) 0"

section \<open>Example values\<close>

text \<open>A fault context of a 32-bit ARM build, with an odd program counter.\<close>

definition example_ucontext :: "32 ucontext_t" where
  "example_ucontext =
     \<lparr> uc_mcontext =
         \<lparr> arm_r0 = 0x10, arm_r1 = 0x11, arm_r2 = 0x12, arm_r3 = 0x13,
           arm_r4 = 0x14, arm_r5 = 0x15, arm_r6 = 0x16, arm_r7 = 0x17,
           arm_r8 = 0x18, arm_r9 = 0x19, arm_r10 = 0x1a, arm_fp = 0x1b,
           arm_ip = 0x1c, arm_sp = 0x7ff0, arm_lr = 0x8125, arm_pc = 0x8001 \<rparr> \<rparr>"

text \<open>The state after thirty distinct addresses have been added to a fresh one.\<close>

definition example_full_state :: "32 BacktraceState" where
  "example_full_state =
     AddAddress_calls False (BacktraceState_Init example_ucontext) (map of_nat [1..<31])"

text \<open>A state of a Thumb build with three stored addresses.\<close>

definition example_state :: "32 BacktraceState" where
  "example_state =
     AddAddress_calls True (BacktraceState_Init example_ucontext) [0x8001, 0x8124, 0x8200]"

text \<open>A state whose first stored address is null.\<close>

definition example_zero_state :: "32 BacktraceState" where
  "example_zero_state =
     AddAddress_calls False (BacktraceState_Init example_ucontext) [0, 0x8124]"

text \<open>
  A loader that knows one module, loaded at \<open>0x8000\<close>, and leaves the \<^verbatim>\<open>Dl_info\<close> alone
  when the address is in no module; a demangler that knows one name.
\<close>

definition example_dladdr :: "32 word \<Rightarrow> 32 Dl_info \<Rightarrow> int \<times> 32 Dl_info" where
  "example_dladdr address info =
     (if 0x8000 \<le> address \<and> address < 0x8200
      then (1, \<lparr> dli_fname = Some ''app'', dli_fbase = 0x8000,
                  dli_sname = Some ''_Z5Crashv'', dli_saddr = 0x8000 \<rparr>)
      else (0, info))"

definition example_cxa_demangle :: "string \<Rightarrow> string option" where
  "example_cxa_demangle mangled_name =
     (if mangled_name = ''_Z5Crashv'' then Some ''Crash()'' else None)"

text \<open>
  The register of the fault context that \<^verbatim>\<open>ProcessRegisters\<close> pairs with each register
  number.
\<close>

definition sigcontext_register :: "('w::len) sigcontext \<Rightarrow> reg \<Rightarrow> 'w word" where
  "sigcontext_register signal_mcontext r =
     (case r of
        REG_R0 \<Rightarrow> arm_r0 signal_mcontext | REG_R1 \<Rightarrow> arm_r1 signal_mcontext
      | REG_R2 \<Rightarrow> arm_r2 signal_mcontext | REG_R3 \<Rightarrow> arm_r3 signal_mcontext
      | REG_R4 \<Rightarrow> arm_r4 signal_mcontext | REG_R5 \<Rightarrow> arm_r5 signal_mcontext
      | REG_R6 \<Rightarrow> arm_r6 signal_mcontext | REG_R7 \<Rightarrow> arm_r7 signal_mcontext
      | REG_R8 \<Rightarrow> arm_r8 signal_mcontext | REG_R9 \<Rightarrow> arm_r9 signal_mcontext
      | REG_R10 \<Rightarrow> arm_r10 signal_mcontext | REG_R11 \<Rightarrow> arm_fp signal_mcontext
      | REG_R12 \<Rightarrow> arm_ip signal_mcontext | REG_R13 \<Rightarrow> arm_sp signal_mcontext
      | REG_R14 \<Rightarrow> arm_lr signal_mcontext | REG_R15 \<Rightarrow> arm_pc signal_mcontext)"

text \<open>
  An unwind context of the handler's own frame, and the \<^verbatim>\<open>_Unwind_GetIP\<close> of the ARM
  unwinder: register 15 without its Thumb bit.
\<close>

definition example_unwind_context :: "32 Unwind_Context" where
  "example_unwind_context = (\<lambda>r. 0x7000)"

definition example_GetIP :: "32 Unwind_Context \<Rightarrow> 32 word" where
  "example_GetIP unwind_context = unwind_context REG_R15 AND NOT 1"

text \<open>
  What the unwinder yields from a cursor: \<open>unw_steps lu cursor n\<close> is \<open>Some (ips, cursor')\<close>
  when the first \<open>n\<close> calls of \<^verbatim>\<open>unw_step\<close> all report a frame (a positive return), \<open>ips\<close>
  being the instruction pointers read after each of them, in order, and \<open>cursor'\<close> the
  cursor after the last.
\<close>

fun unw_steps ::
  "('c, 'w::len) libunwind \<Rightarrow> 'c \<Rightarrow> nat \<Rightarrow> ('w word list \<times> 'c) option" where
  "unw_steps lu unw_cursor 0 = Some ([], unw_cursor)"
| "unw_steps lu unw_cursor (Suc n) =
     (case unw_step lu unw_cursor of (rc, unw_cursor') \<Rightarrow>
        if rc > 0 then
          (case unw_steps lu unw_cursor' n of
             None \<Rightarrow> None
           | Some (ips, unw_cursor'') \<Rightarrow>
               Some ((case unw_get_reg lu unw_cursor' UNW_REG_IP of None \<Rightarrow> 0 | Some v \<Rightarrow> v)
                       # ips, unw_cursor''))
        else None)"

text \<open>
  The collection as the specification of method 1 words it: each instruction pointer, in
  order, is added via the collector, and the walk stops on the first rejected
  insertion.
\<close>

fun add_until_rejected ::
  "bool \<Rightarrow> ('w::len) BacktraceState \<Rightarrow> 'w word list \<Rightarrow> 'w BacktraceState" where
  "add_until_rejected thumb state [] = state"
| "add_until_rejected thumb state (ip # ips) =
     (case BacktraceState_AddAddress thumb state ip of (ok, state') \<Rightarrow>
        if ok then add_until_rejected thumb state' ips else state')"

text \<open>
  Two unwinders over cursors that count the steps taken: one whose chain of frames ends
  after \<open>depth\<close> steps, and one whose chain never ends. Their frames have distinct
  instruction pointers.
\<close>

definition example_libunwind :: "nat \<Rightarrow> (nat, 32) libunwind" where
  "example_libunwind depth =
     \<lparr> unw_init_local = 0,
       unw_set_reg = (\<lambda>cursor regnum val. cursor),
       unw_get_reg = (\<lambda>cursor regnum. Some (0x8100 + 0x10 * of_nat cursor)),
       unw_step = (\<lambda>cursor. (if cursor < depth then 1 else 0, cursor + 1)) \<rparr>"

definition endless_libunwind :: "(nat, 32) libunwind" where
  "endless_libunwind =
     \<lparr> unw_init_local = 0,
       unw_set_reg = (\<lambda>cursor regnum val. cursor),
       unw_get_reg = (\<lambda>cursor regnum. Some (0x8100 + 0x10 * of_nat cursor)),
       unw_step = (\<lambda>cursor. (1, cursor + 1)) \<rparr>"

section \<open>Properties of the address collector\<close>

lemma reset_thumb_bit_clear: "reset_thumb_bit True ip AND 1 = 0"
  by (simp add: reset_thumb_bit_def Let_def word_bw_assocs)

lemma and_not_one_id: "ip AND 1 = 0 \<Longrightarrow> ip AND NOT 1 = (ip::'a::len word)"
proof -
  assume a: "ip AND 1 = 0"
  have "ip AND NOT 1 = ip AND NOT (ip AND 1)"
    by (simp add: bit.conj_disj_distrib)
  also have "\<dots> = ip" by (simp add: a)
  finally show ?thesis .
qed

lemma reset_thumb_bit_id: "thumb \<longrightarrow> ip AND 1 = 0 \<Longrightarrow> reset_thumb_bit thumb ip = ip"
  using and_not_one_id [of ip] by (simp add: reset_thumb_bit_def Let_def)

lemma reset_thumb_bit_stripped: "thumb \<Longrightarrow> reset_thumb_bit thumb ip AND 1 = 0"
  using reset_thumb_bit_clear by simp

lemma AddAddress_full:
  "address_count_max \<le> address_count state \<Longrightarrow>
     BacktraceState_AddAddress thumb state ip = (False, state)"
  by (simp add: BacktraceState_AddAddress_def)

lemma AddAddress_ok:
  "address_count state < address_count_max \<Longrightarrow> fst (BacktraceState_AddAddress thumb state ip)"
  by (simp add: BacktraceState_AddAddress_def Let_def)

lemma AddAddress_first:
  "address_count state = 0 \<Longrightarrow>
     BacktraceState_AddAddress thumb state ip =
       (True, state\<lparr> addresses := (addresses state)[0 := reset_thumb_bit thumb ip],
                     address_count := 1 \<rparr>)"
  by (simp add: BacktraceState_AddAddress_def Let_def address_count_max_def)

lemma AddAddress_ignored:
  assumes "0 < address_count state" and "address_count state < address_count_max"
    and "reset_thumb_bit thumb ip = 0
         \<or> reset_thumb_bit thumb ip = addresses state ! (address_count state - 1)"
  shows "BacktraceState_AddAddress thumb state ip = (True, state)"
  using assms by (auto simp add: BacktraceState_AddAddress_def Let_def)

lemma AddAddress_appended:
  assumes "address_count state < address_count_max"
    and "0 < address_count state \<longrightarrow> reset_thumb_bit thumb ip \<noteq> 0
         \<and> reset_thumb_bit thumb ip \<noteq> addresses state ! (address_count state - 1)"
  shows "BacktraceState_AddAddress thumb state ip =
           (True, state\<lparr> addresses :=
                           (addresses state)[address_count state := reset_thumb_bit thumb ip],
                         address_count := address_count state + 1 \<rparr>)"
  using assms by (auto simp add: BacktraceState_AddAddress_def Let_def)

lemma Init_valid: "BacktraceState_valid thumb (BacktraceState_Init uc)"
  by (simp add: BacktraceState_valid_def BacktraceState_Init_def stored_addresses_def)

lemma take_Suc_update:
  "n < length xs \<Longrightarrow> take (Suc n) (xs[n := x]) = take n xs @ [x]"
  by (simp add: take_Suc_conv_app_nth)

lemma AddAddress_valid:
  assumes "BacktraceState_valid thumb state"
  shows "BacktraceState_valid thumb (snd (BacktraceState_AddAddress thumb state ip))"
proof (cases "fst (BacktraceState_AddAddress thumb state ip) \<and>
              address_count (snd (BacktraceState_AddAddress thumb state ip))
                \<noteq> address_count state")
  case False
  then have "snd (BacktraceState_AddAddress thumb state ip) = state"
    by (auto simp add: BacktraceState_AddAddress_def Let_def split: if_splits)
  with assms show ?thesis by simp
next
  case True
  then have lt: "address_count state < address_count_max"
    and eq: "snd (BacktraceState_AddAddress thumb state ip) =
               state\<lparr> addresses :=
                        (addresses state)[address_count state := reset_thumb_bit thumb ip],
                      address_count := address_count state + 1 \<rparr>"
    by (auto simp add: BacktraceState_AddAddress_def Let_def split: if_splits)
  from assms have len: "length (addresses state) = address_count_max"
    by (simp add: BacktraceState_valid_def)
  from assms lt len show ?thesis
    unfolding eq
    by (auto simp add: BacktraceState_valid_def stored_addresses_def take_Suc_update
        reset_thumb_bit_stripped)
qed

lemma AddAddress_calls_valid:
  "BacktraceState_valid thumb state \<Longrightarrow>
     BacktraceState_valid thumb (AddAddress_calls thumb state ips)"
  by (induction ips arbitrary: state) (simp_all add: AddAddress_valid)

lemma example_full_state_count: "address_count example_full_state = address_count_max"
  by code_simp

text \<open>
  C1. Whatever sequence of \<^verbatim>\<open>BacktraceState_AddAddress\<close> calls is made on an initialized
  state, the address count stays at most the capacity, which is 30; and a call on a
  state whose count is the capacity returns failure and leaves the whole state, so the
  count and every stored entry, as it was.
\<close>

theorem AddAddress_capacity:
  "address_count (AddAddress_calls thumb (BacktraceState_Init uc) ips) \<le> address_count_max
   \<and> address_count_max = 30
   \<and> (address_count state = address_count_max \<longrightarrow>
        BacktraceState_AddAddress thumb state ip = (False, state))"
proof -
  have "BacktraceState_valid thumb (AddAddress_calls thumb (BacktraceState_Init uc) ips)"
    by (rule AddAddress_calls_valid) (rule Init_valid)
  then show ?thesis
    by (simp add: BacktraceState_valid_def AddAddress_full) (simp add: address_count_max_def)
qed

theorem AddAddress_capacity_witness:
  "address_count example_full_state = address_count_max
   \<and> BacktraceState_AddAddress False example_full_state 0x9000 = (False, example_full_state)"
  using AddAddress_capacity [of False example_ucontext "[]" example_full_state "0x9000"]
    example_full_state_count by simp

lemma example_state_count: "address_count example_state = 3"
  by code_simp

lemma example_state_addresses: "stored_addresses example_state = [0x8000, 0x8124, 0x8200]"
  by code_simp

lemma example_state_valid: "BacktraceState_valid True example_state"
  unfolding example_state_def by (rule AddAddress_calls_valid) (rule Init_valid)

lemma example_full_state_last:
  "addresses example_full_state ! (address_count example_full_state - 1) = 30"
  by code_simp

lemma example_zero_state_eq:
  "stored_addresses example_zero_state = [0, 0x8124]"
  "address_count example_zero_state = 2"
  by code_simp+

text \<open>
  C10. \<^verbatim>\<open>BacktraceState_AddAddress\<close> reports failure exactly when the count has reached
  the capacity at the time of the call, which for a state within its capacity means that
  the count equals 30; with a count below 30 it reports success for every address, the
  ignored ones included.
\<close>

theorem AddAddress_fails_iff_full:
  "(\<not> fst (BacktraceState_AddAddress thumb state ip))
     = (address_count_max \<le> address_count state)
   \<and> (address_count state \<le> address_count_max \<longrightarrow>
        (\<not> fst (BacktraceState_AddAddress thumb state ip)) = (address_count state = 30))
   \<and> (address_count state < 30 \<longrightarrow> fst (BacktraceState_AddAddress thumb state ip))"
proof -
  have "(\<not> fst (BacktraceState_AddAddress thumb state ip))
          = (address_count_max \<le> address_count state)"
    by (cases "address_count_max \<le> address_count state")
       (simp_all add: AddAddress_full AddAddress_ok)
  then show ?thesis by (auto simp add: address_count_max_def)
qed

theorem AddAddress_fails_iff_full_witness:
  "address_count example_full_state \<le> address_count_max
   \<and> \<not> fst (BacktraceState_AddAddress False example_full_state 0x9000)
   \<and> address_count example_state < 30
   \<and> fst (BacktraceState_AddAddress True example_state 0)"
  using AddAddress_fails_iff_full [of False example_full_state "0x9000"]
    AddAddress_fails_iff_full [of True example_state 0]
    example_full_state_count example_state_count
  by (simp add: address_count_max_def)

text \<open>
  A null address added to the full example state is not reported as a success: the
  capacity check comes first.
\<close>

theorem AddAddress_zero_full_counterexample:
  "0 < address_count example_full_state
   \<and> BacktraceState_AddAddress False example_full_state 0 = (False, example_full_state)"
  using example_full_state_count by (simp add: AddAddress_full) (simp add: address_count_max_def)

text \<open>
  C4. On a state with at least one stored address and fewer than 30, adding
  the null address leaves the state, so the count and the contents, unchanged and
  reports success.
\<close>

theorem AddAddress_zero_ignored:
  assumes "0 < address_count state" and "address_count state < address_count_max"
  shows "BacktraceState_AddAddress thumb state 0 = (True, state)"
  using assms by (simp add: AddAddress_ignored reset_thumb_bit_id)

theorem AddAddress_zero_ignored_witness:
  "0 < address_count example_state \<and> address_count example_state < address_count_max
   \<and> BacktraceState_AddAddress True example_state 0 = (True, example_state)"
proof -
  have h1: "0 < address_count example_state" by (simp add: example_state_count)
  have h2: "address_count example_state < address_count_max"
    by (simp add: example_state_count address_count_max_def)
  show ?thesis using h1 h2 AddAddress_zero_ignored [OF h1 h2, of True] by simp
qed

text \<open>
  The last entry of the full example state, added again, is reported as a failure; and
  in the example state that starts with a null address, adding the null address again,
  with another address in between, is ignored and not appended.
\<close>

theorem AddAddress_duplicate_counterexample:
  "0 < address_count example_full_state
   \<and> addresses example_full_state ! (address_count example_full_state - 1) = 30
   \<and> BacktraceState_AddAddress False example_full_state 30 = (False, example_full_state)
   \<and> stored_addresses example_zero_state = [0, 0x8124]
   \<and> BacktraceState_AddAddress False example_zero_state 0 = (True, example_zero_state)"
  using example_full_state_count example_full_state_last example_zero_state_eq 
  by (simp add: AddAddress_full AddAddress_ignored reset_thumb_bit_id address_count_max_def)

lemma valid_stored_stripped:
  assumes "BacktraceState_valid thumb state" and "ip \<in> set (stored_addresses state)"
  shows "reset_thumb_bit thumb ip = ip"
  using assms by (auto simp add: BacktraceState_valid_def intro: reset_thumb_bit_id)

lemma valid_last_stored:
  assumes "BacktraceState_valid thumb state" and "0 < address_count state"
  shows "addresses state ! (address_count state - 1) \<in> set (stored_addresses state)"
proof -
  from assms have "address_count state - 1 < length (stored_addresses state)"
    by (simp add: BacktraceState_valid_def stored_addresses_def)
  then have "stored_addresses state ! (address_count state - 1) \<in> set (stored_addresses state)"
    by (rule nth_mem)
  moreover from assms have "stored_addresses state ! (address_count state - 1)
      = addresses state ! (address_count state - 1)"
    by (simp add: stored_addresses_def)
  ultimately show ?thesis by simp
qed

text \<open>
  C3. On a state with at least one stored address and fewer than 30, adding
  the address of the last stored entry leaves the state unchanged and reports success;
  adding a non-null address that is stored earlier but is not the last stored entry
  appends it: only the last entry is compared.
\<close>

theorem AddAddress_duplicate_of_last_only:
  assumes "BacktraceState_valid thumb state"
    and "0 < address_count state" and "address_count state < address_count_max"
  shows "(ip = addresses state ! (address_count state - 1) \<longrightarrow>
            BacktraceState_AddAddress thumb state ip = (True, state))
       \<and> (ip \<in> set (stored_addresses state) \<and> ip \<noteq> 0
            \<and> ip \<noteq> addresses state ! (address_count state - 1) \<longrightarrow>
            BacktraceState_AddAddress thumb state ip =
              (True, state\<lparr> addresses := (addresses state)[address_count state := ip],
                            address_count := address_count state + 1 \<rparr>)
            \<and> stored_addresses (snd (BacktraceState_AddAddress thumb state ip))
                = stored_addresses state @ [ip])"
proof (intro conjI impI)
  assume "ip = addresses state ! (address_count state - 1)"
  with assms valid_last_stored [OF assms(1,2)] have "reset_thumb_bit thumb ip = addresses state ! (address_count state - 1)"
    by (simp add: valid_stored_stripped)
  with assms show "BacktraceState_AddAddress thumb state ip = (True, state)"
    by (simp add: AddAddress_ignored)
next
  assume a: "ip \<in> set (stored_addresses state) \<and> ip \<noteq> 0
            \<and> ip \<noteq> addresses state ! (address_count state - 1)"
  with assms have r: "reset_thumb_bit thumb ip = ip" by (simp add: valid_stored_stripped)
  with a assms show e: "BacktraceState_AddAddress thumb state ip =
              (True, state\<lparr> addresses := (addresses state)[address_count state := ip],
                            address_count := address_count state + 1 \<rparr>)"
    using AddAddress_appended [of state thumb ip] by simp
  from assms show "stored_addresses (snd (BacktraceState_AddAddress thumb state ip))
                = stored_addresses state @ [ip]"
    unfolding e by (simp add: stored_addresses_def BacktraceState_valid_def take_Suc_update)
qed

theorem AddAddress_duplicate_of_last_only_witness:
  "BacktraceState_valid True example_state
   \<and> stored_addresses example_state = [0x8000, 0x8124, 0x8200]
   \<and> BacktraceState_AddAddress True example_state 0x8200 = (True, example_state)
   \<and> BacktraceState_AddAddress True example_state 0x8000 =
       (True, example_state\<lparr> addresses := (addresses example_state)[3 := 0x8000],
                              address_count := 4 \<rparr>)"
proof -
  have h1: "0 < address_count example_state" by (simp add: example_state_count)
  have h2: "address_count example_state < address_count_max"
    by (simp add: example_state_count address_count_max_def)
  have l: "addresses example_state ! (address_count example_state - 1) = 0x8200" by code_simp
  show ?thesis
    using AddAddress_duplicate_of_last_only [OF example_state_valid h1 h2, of "0x8200"]
      AddAddress_duplicate_of_last_only [OF example_state_valid h1 h2, of "0x8000"]
      example_state_valid example_state_addresses l
    by (simp add: example_state_count)
qed

text \<open>
  C5. On a Thumb build, the address is used with its tag bit cleared: it is the cleared
  value that is compared with zero and with the last stored entry, and when the call
  stores an address, the entry stored is the cleared value, whose tag bit is zero.
\<close>

theorem AddAddress_thumb_bit_cleared:
  assumes "address_count state < address_count_max"
    and "length (addresses state) = address_count_max"
  shows "BacktraceState_AddAddress True state ip =
           (if 0 < address_count state
               \<and> (ip AND NOT 1 = 0 \<or> ip AND NOT 1 = addresses state ! (address_count state - 1))
            then (True, state)
            else (True, state\<lparr> addresses := (addresses state)[address_count state := ip AND NOT 1],
                               address_count := address_count state + 1 \<rparr>))
       \<and> (address_count (snd (BacktraceState_AddAddress True state ip)) = address_count state + 1 \<longrightarrow>
            addresses (snd (BacktraceState_AddAddress True state ip)) ! address_count state
              = ip AND NOT 1
            \<and> addresses (snd (BacktraceState_AddAddress True state ip)) ! address_count state AND 1
              = 0)"
proof -
  have r: "reset_thumb_bit True ip = ip AND NOT 1"
    by (simp add: reset_thumb_bit_def Let_def)
  have c: "(ip AND NOT 1) AND 1 = 0"
    using reset_thumb_bit_clear [of ip] unfolding r .
  have e: "BacktraceState_AddAddress True state ip =
           (if 0 < address_count state
               \<and> (ip AND NOT 1 = 0 \<or> ip AND NOT 1 = addresses state ! (address_count state - 1))
            then (True, state)
            else (True, state\<lparr> addresses := (addresses state)[address_count state := ip AND NOT 1],
                               address_count := address_count state + 1 \<rparr>))"
    using assms(1) unfolding BacktraceState_AddAddress_def r by (auto simp add: Let_def)
  show ?thesis
    apply (rule conjI [OF e])
    unfolding e using assms c by (auto)
qed

theorem AddAddress_thumb_bit_cleared_witness:
  "address_count example_state < address_count_max
   \<and> length (addresses example_state) = address_count_max
   \<and> BacktraceState_AddAddress True example_state 0x8301 =
       (True, example_state\<lparr> addresses := (addresses example_state)[3 := 0x8300],
                              address_count := 4 \<rparr>)
   \<and> BacktraceState_AddAddress True example_state 0x8201 = (True, example_state)"
proof -
  have h1: "address_count example_state < address_count_max"
    by (simp add: example_state_count address_count_max_def)
  have h2: "length (addresses example_state) = address_count_max"
    using example_state_valid by (simp add: BacktraceState_valid_def)
  have l: "addresses example_state ! (address_count example_state - 1) = 0x8200" by code_simp
  show ?thesis
    using AddAddress_thumb_bit_cleared [OF h1 h2, of "0x8301"]
      AddAddress_thumb_bit_cleared [OF h1 h2, of "0x8201"] h1 h2 l
    by (simp add: example_state_count)
qed

section \<open>Properties of \<^verbatim>\<open>PrintBacktrace\<close>\<close>


lemma PrintBacktrace_frame_null:
  "PrintBacktrace_frame dladdr cxa_demangle frame_index 0 = Inl AssertionFailed"
  by (simp add: PrintBacktrace_frame_def)



lemma PrintBacktrace_for_null:
  "frame_index < frame_count \<Longrightarrow> addresses state ! frame_index = 0 \<Longrightarrow>
     PrintBacktrace_for dladdr cxa_demangle state frame_count frame_index
       = ([], Some AssertionFailed)"
  by (subst PrintBacktrace_for.simps) (simp add: PrintBacktrace_frame_null)


text \<open>
  C9. On a freshly initialized state the null address is appended and counted: the call
  reports success, the count becomes 1 and the one stored address is null (the filter
  for null addresses applies only from the second address on, see C4).
  \<^verbatim>\<open>PrintBacktrace\<close> asserts that each stored address is not null, so on that state the
  assertion fails on the first frame and no line is rendered.
\<close>

theorem AddAddress_leading_null:
  "BacktraceState_AddAddress thumb (BacktraceState_Init uc) 0 =
     (True, (BacktraceState_Init uc)\<lparr> address_count := 1 \<rparr>)
   \<and> stored_addresses (snd (BacktraceState_AddAddress thumb (BacktraceState_Init uc) 0)) = [0]
   \<and> PrintBacktrace dladdr cxa_demangle
        (snd (BacktraceState_AddAddress thumb (BacktraceState_Init uc) 0))
       = ([], Some AssertionFailed)"
proof -
  have i: "address_count (BacktraceState_Init uc) = 0"
    by (simp add: BacktraceState_Init_def)
  have e: "BacktraceState_AddAddress thumb (BacktraceState_Init uc) 0 =
     (True, (BacktraceState_Init uc)\<lparr> address_count := 1 \<rparr>)"
    unfolding AddAddress_first [OF i]
    by (simp add: reset_thumb_bit_id BacktraceState_Init_def list_eq_iff_nth_eq nth_list_update)
  have s: "stored_addresses ((BacktraceState_Init uc)\<lparr> address_count := 1 \<rparr>) = [0]"
    by (simp add: stored_addresses_def BacktraceState_Init_def address_count_max_def)
  have z: "addresses ((BacktraceState_Init uc)\<lparr> address_count := 1 \<rparr>) ! 0 = 0"
    by (simp add: BacktraceState_Init_def address_count_max_def)
  have p: "PrintBacktrace dladdr cxa_demangle ((BacktraceState_Init uc)\<lparr> address_count := 1 \<rparr>)
       = ([], Some AssertionFailed)"
    unfolding PrintBacktrace_def using z
    by (simp add: PrintBacktrace_for_null del: PrintBacktrace_for.simps)
  show ?thesis unfolding e using s p by simp
qed

theorem AddAddress_leading_null_witness:
  "BacktraceState_AddAddress False (BacktraceState_Init example_ucontext) 0 =
     (True, (BacktraceState_Init example_ucontext)\<lparr> address_count := 1 \<rparr>)
   \<and> stored_addresses
        (snd (BacktraceState_AddAddress False (BacktraceState_Init example_ucontext) 0)) = [0]
   \<and> PrintBacktrace example_dladdr example_cxa_demangle
        (snd (BacktraceState_AddAddress False (BacktraceState_Init example_ucontext) 0))
       = ([], Some AssertionFailed)"
  by (rule AddAddress_leading_null)




section \<open>Properties of the callbacks\<close>

lemma ProcessRegisters_context:
  "fst (ProcessRegisters thumb unwind_context state)
     = sigcontext_register (uc_mcontext (signal_ucontext state))"
proof
  fix r
  show "fst (ProcessRegisters thumb unwind_context state) r
     = sigcontext_register (uc_mcontext (signal_ucontext state)) r"
    by (cases r) (simp_all add: ProcessRegisters_def Let_def Unwind_SetGR_def sigcontext_register_def)
qed

lemma RegistersCallback_first:
  assumes "address_count state = 0"
  shows "UnwindBacktraceWithRegistersCallback thumb Unwind_GetIP unwind_context state =
           (URC_NO_REASON,
            sigcontext_register (uc_mcontext (signal_ucontext state)),
            state\<lparr> addresses :=
                     (addresses state)[0 := reset_thumb_bit thumb
                                              (arm_pc (uc_mcontext (signal_ucontext state)))],
                   address_count := 1 \<rparr>)"
proof -
  have s: "snd (ProcessRegisters thumb unwind_context state) =
      state\<lparr> addresses :=
                     (addresses state)[0 := reset_thumb_bit thumb
                                              (arm_pc (uc_mcontext (signal_ucontext state)))],
                   address_count := 1 \<rparr>"
    by (simp add: ProcessRegisters_def Let_def AddAddress_first [OF assms])
  have "ProcessRegisters thumb unwind_context state =
          (sigcontext_register (uc_mcontext (signal_ucontext state)),
           state\<lparr> addresses :=
                     (addresses state)[0 := reset_thumb_bit thumb
                                              (arm_pc (uc_mcontext (signal_ucontext state)))],
                   address_count := 1 \<rparr>)"
    by (rule prod_eqI) (simp_all add: ProcessRegisters_context s)
  with assms show ?thesis
    by (simp add: UnwindBacktraceWithRegistersCallback_def)
qed

text \<open>
  C2. On a state with address count zero, the callback of method 2 returns
  \<^verbatim>\<open>_URC_NO_REASON\<close>, leaves every one of the sixteen registers of the unwind context equal
  to the register of the fault context, and its result is the same for every unwind
  context it is given and every \<^verbatim>\<open>_Unwind_GetIP\<close>: the frame's own instruction pointer is
  not read. After it the state holds exactly one address: the program counter of the
  fault context with the Thumb bit cleared on a Thumb build, which is the program
  counter itself on other builds and whenever that bit is clear.
\<close>

theorem RegistersCallback_first_invocation:
  assumes "address_count state = 0" and "length (addresses state) = address_count_max"
  shows "UnwindBacktraceWithRegistersCallback thumb Unwind_GetIP unwind_context state =
           (URC_NO_REASON,
            sigcontext_register (uc_mcontext (signal_ucontext state)),
            state\<lparr> addresses :=
                     (addresses state)[0 := reset_thumb_bit thumb
                                              (arm_pc (uc_mcontext (signal_ucontext state)))],
                   address_count := 1 \<rparr>)
       \<and> UnwindBacktraceWithRegistersCallback thumb Unwind_GetIP unwind_context state
           = UnwindBacktraceWithRegistersCallback thumb Unwind_GetIP' unwind_context' state
       \<and> stored_addresses
            (snd (snd (UnwindBacktraceWithRegistersCallback thumb Unwind_GetIP unwind_context state)))
           = [reset_thumb_bit thumb (arm_pc (uc_mcontext (signal_ucontext state)))]
       \<and> ((thumb \<longrightarrow> arm_pc (uc_mcontext (signal_ucontext state)) AND 1 = 0) \<longrightarrow>
            stored_addresses
              (snd (snd (UnwindBacktraceWithRegistersCallback thumb Unwind_GetIP unwind_context state)))
             = [arm_pc (uc_mcontext (signal_ucontext state))])"
proof -
  note e = RegistersCallback_first [OF assms(1)]
  have st: "stored_addresses
            (snd (snd (UnwindBacktraceWithRegistersCallback thumb Unwind_GetIP unwind_context state)))
           = [reset_thumb_bit thumb (arm_pc (uc_mcontext (signal_ucontext state)))]"
    unfolding e using assms(2)
    by (cases "addresses state") (simp_all add: stored_addresses_def address_count_max_def)
  have id: "stored_addresses
              (snd (snd (UnwindBacktraceWithRegistersCallback thumb Unwind_GetIP unwind_context state)))
             = [arm_pc (uc_mcontext (signal_ucontext state))]"
    if "thumb \<longrightarrow> arm_pc (uc_mcontext (signal_ucontext state)) AND 1 = 0"
    using st reset_thumb_bit_id [OF that] by simp
  have ni: "UnwindBacktraceWithRegistersCallback thumb Unwind_GetIP unwind_context state
           = UnwindBacktraceWithRegistersCallback thumb Unwind_GetIP' unwind_context' state"
    unfolding e RegistersCallback_first [OF assms(1), of thumb Unwind_GetIP' unwind_context'] ..
  show ?thesis
    using e ni st id by blast
qed

text \<open>
  On a Thumb build, with the example fault context whose program counter is \<open>0x8001\<close>,
  the one address stored by the first invocation is \<open>0x8000\<close>.
\<close>

theorem RegistersCallback_first_invocation_counterexample:
  "address_count (BacktraceState_Init example_ucontext) = 0
   \<and> arm_pc (uc_mcontext (signal_ucontext (BacktraceState_Init example_ucontext))) = 0x8001
   \<and> stored_addresses
        (snd (snd (UnwindBacktraceWithRegistersCallback True example_GetIP example_unwind_context
                     (BacktraceState_Init example_ucontext))))
       = [0x8000]"
  by code_simp

theorem RegistersCallback_first_invocation_witness:
  "address_count (BacktraceState_Init example_ucontext) = 0
   \<and> fst (snd (UnwindBacktraceWithRegistersCallback False example_GetIP example_unwind_context
                  (BacktraceState_Init example_ucontext))) REG_R11 = 0x1b
   \<and> stored_addresses
        (snd (snd (UnwindBacktraceWithRegistersCallback False example_GetIP example_unwind_context
                     (BacktraceState_Init example_ucontext))))
       = [0x8001]"
proof -
  have h1: "address_count (BacktraceState_Init example_ucontext) = 0"
    by (simp add: BacktraceState_Init_def)
  have h2: "length (addresses (BacktraceState_Init example_ucontext)) = address_count_max"
    by (simp add: BacktraceState_Init_def)
  note t = RegistersCallback_first_invocation [OF h1 h2, of False example_GetIP
      example_unwind_context example_GetIP example_unwind_context]
  have pc: "arm_pc (uc_mcontext (signal_ucontext (BacktraceState_Init example_ucontext))) = 0x8001"
    by (simp add: BacktraceState_Init_def example_ucontext_def)
  have r: "fst (snd (UnwindBacktraceWithRegistersCallback False example_GetIP example_unwind_context
                  (BacktraceState_Init example_ucontext))) REG_R11 = 0x1b"
    unfolding t [THEN conjunct1]
    by (simp add: sigcontext_register_def BacktraceState_Init_def example_ucontext_def)
  have st: "stored_addresses
        (snd (snd (UnwindBacktraceWithRegistersCallback False example_GetIP example_unwind_context
                     (BacktraceState_Init example_ucontext))))
       = [arm_pc (uc_mcontext (signal_ucontext (BacktraceState_Init example_ucontext)))]"
    by (rule t [THEN conjunct2, THEN conjunct2, THEN conjunct2, rule_format]) simp
  show ?thesis
    using h1 r st [unfolded pc] by blast
qed


lemma SkippingCallback_skip:
  "0 < address_skip_count state \<Longrightarrow>
     UnwindBacktraceWithSkippingCallback thumb Unwind_GetIP unwind_context state =
       (URC_NO_REASON, state\<lparr> address_skip_count := address_skip_count state - 1 \<rparr>)"
  by (simp add: UnwindBacktraceWithSkippingCallback_def)

lemma Skipping_skipped:
  "length skipped \<le> address_skip_count state \<Longrightarrow>
     UnwindBacktraceWithSkipping thumb Unwind_GetIP (skipped @ frames) state =
       UnwindBacktraceWithSkipping thumb Unwind_GetIP frames
         (state\<lparr> address_skip_count := address_skip_count state - length skipped \<rparr>)"
proof (induction skipped arbitrary: state)
  case Nil
  then show ?case by simp
next
  case (Cons unwind_context skipped)
  then have p: "0 < address_skip_count state" by simp
  from Cons.prems have l: "length skipped \<le> address_skip_count
      (state\<lparr> address_skip_count := address_skip_count state - 1 \<rparr>)" by simp
  show ?case
    using Cons.IH [OF l]
    by (simp add: UnwindBacktraceWithSkipping_def SkippingCallback_skip [OF p])
qed

lemma SkippingCallback_add:
  "address_skip_count state = 0 \<Longrightarrow> address_count state = 0 \<Longrightarrow>
     UnwindBacktraceWithSkippingCallback thumb Unwind_GetIP unwind_context state =
       (URC_NO_REASON,
        state\<lparr> addresses := (addresses state)[0 := reset_thumb_bit thumb (Unwind_GetIP unwind_context)],
               address_count := 1 \<rparr>)"
  by (simp add: UnwindBacktraceWithSkippingCallback_def AddAddress_first)

text \<open>
  C6. A freshly initialized state has skip count 3. An invocation of the callback of
  method 3 with a positive skip count only decrements it and returns \<^verbatim>\<open>_URC_NO_REASON\<close>,
  whatever the frame; so a run over at most three frames leaves the initial state with
  the counter decremented once per frame and no address added, and in a longer run the
  fourth invocation is the first to add: it stores its frame's instruction pointer
  (through \<^verbatim>\<open>BacktraceState_AddAddress\<close>) as the first address, and the run goes on from
  there.
\<close>

theorem Skipping_first_invocations:
  "address_skip_count (BacktraceState_Init uc) = 3
   \<and> (0 < address_skip_count state \<longrightarrow>
        UnwindBacktraceWithSkippingCallback thumb Unwind_GetIP unwind_context state =
          (URC_NO_REASON, state\<lparr> address_skip_count := address_skip_count state - 1 \<rparr>))
   \<and> (length frames \<le> 3 \<longrightarrow>
        UnwindBacktraceWithSkipping thumb Unwind_GetIP frames (BacktraceState_Init uc) =
          (BacktraceState_Init uc)\<lparr> address_skip_count := 3 - length frames \<rparr>)
   \<and> (length frames = 3 \<longrightarrow>
        UnwindBacktraceWithSkipping thumb Unwind_GetIP (frames @ unwind_context # rest)
            (BacktraceState_Init uc) =
          UnwindBacktraceWithSkipping thumb Unwind_GetIP rest
            ((BacktraceState_Init uc)
               \<lparr> address_skip_count := 0,
                 addresses := (addresses (BacktraceState_Init uc))
                                [0 := reset_thumb_bit thumb (Unwind_GetIP unwind_context)],
                 address_count := 1 \<rparr>))"
proof (intro conjI impI)
  show i: "address_skip_count (BacktraceState_Init uc) = 3"
    by (simp add: BacktraceState_Init_def)
  show "UnwindBacktraceWithSkippingCallback thumb Unwind_GetIP unwind_context state =
          (URC_NO_REASON, state\<lparr> address_skip_count := address_skip_count state - 1 \<rparr>)"
    if "0 < address_skip_count state"
    using that by (rule SkippingCallback_skip)
  show "UnwindBacktraceWithSkipping thumb Unwind_GetIP frames (BacktraceState_Init uc) =
          (BacktraceState_Init uc)\<lparr> address_skip_count := 3 - length frames \<rparr>"
    if "length frames \<le> 3"
    using that Skipping_skipped [of frames "BacktraceState_Init uc" thumb Unwind_GetIP "[]"]
    by (simp add: i) (simp add: UnwindBacktraceWithSkipping_def)
  show "UnwindBacktraceWithSkipping thumb Unwind_GetIP (frames @ unwind_context # rest)
            (BacktraceState_Init uc) =
          UnwindBacktraceWithSkipping thumb Unwind_GetIP rest
            ((BacktraceState_Init uc)
               \<lparr> address_skip_count := 0,
                 addresses := (addresses (BacktraceState_Init uc))
                                [0 := reset_thumb_bit thumb (Unwind_GetIP unwind_context)],
                 address_count := 1 \<rparr>)"
    if "length frames = 3"
  proof -
    have "UnwindBacktraceWithSkipping thumb Unwind_GetIP (frames @ unwind_context # rest)
            (BacktraceState_Init uc) =
          UnwindBacktraceWithSkipping thumb Unwind_GetIP (unwind_context # rest)
            ((BacktraceState_Init uc)\<lparr> address_skip_count := 0 \<rparr>)"
      using that Skipping_skipped [of frames "BacktraceState_Init uc" thumb Unwind_GetIP
          "unwind_context # rest"]
      by (simp add: i)
    also have "\<dots> = UnwindBacktraceWithSkipping thumb Unwind_GetIP rest
            ((BacktraceState_Init uc)
               \<lparr> address_skip_count := 0,
                 addresses := (addresses (BacktraceState_Init uc))
                                [0 := reset_thumb_bit thumb (Unwind_GetIP unwind_context)],
                 address_count := 1 \<rparr>)"
      by (simp add: UnwindBacktraceWithSkipping_def SkippingCallback_add BacktraceState_Init_def)
    finally show ?thesis .
  qed
qed

theorem Skipping_first_invocations_witness:
  "UnwindBacktraceWithSkipping True (\<lambda>ip. ip) [0x8501, 0x8601, 0x8701 :: 32 word]
       (BacktraceState_Init example_ucontext)
     = (BacktraceState_Init example_ucontext)\<lparr> address_skip_count := 0 \<rparr>
   \<and> stored_addresses
       (UnwindBacktraceWithSkipping True (\<lambda>ip. ip) ([0x8501, 0x8601, 0x8701] @ 0x8125 # [])
          (BacktraceState_Init example_ucontext)) = [0x8124]"
proof -
  have s: "stored_addresses ((BacktraceState_Init example_ucontext)
               \<lparr> address_skip_count := 0,
                 addresses := (addresses (BacktraceState_Init example_ucontext))
                                [0 := reset_thumb_bit True 0x8125],
                 address_count := 1 \<rparr>) = [0x8124]"
    by code_simp
  show ?thesis
    using Skipping_first_invocations [of example_ucontext "(BacktraceState_Init example_ucontext)" True "\<lambda>ip. ip" "0x8125"
      "[0x8501, 0x8601, 0x8701]" "[]"] s
    by (simp add: UnwindBacktraceWithSkipping_def)
qed

section \<open>Properties of \<^verbatim>\<open>LibunwindWithRegisters\<close>\<close>

lemma LibunwindWithRegisters_while_stop:
  "unw_step lu unw_cursor = (rc, unw_cursor') \<Longrightarrow> \<not> 0 < rc \<Longrightarrow>
     LibunwindWithRegisters_while lu thumb unw_cursor state = Some state"
  by (subst LibunwindWithRegisters_while.simps) simp

lemma LibunwindWithRegisters_while_step:
  "unw_step lu unw_cursor = (rc, unw_cursor') \<Longrightarrow> 0 < rc \<Longrightarrow>
   BacktraceState_AddAddress thumb state
     (case unw_get_reg lu unw_cursor' UNW_REG_IP of None \<Rightarrow> 0 | Some v \<Rightarrow> v) = (ok, state') \<Longrightarrow>
     LibunwindWithRegisters_while lu thumb unw_cursor state =
       (if \<not> ok then Some state' else LibunwindWithRegisters_while lu thumb unw_cursor' state')"
  by (subst LibunwindWithRegisters_while.simps) simp

lemma LibunwindWithRegisters_while_walk:
  assumes "unw_steps lu unw_cursor n = Some (ips, unw_cursor')"
    and "fst (unw_step lu unw_cursor') \<le> 0
         \<or> address_count_max \<le> address_count (add_until_rejected thumb state ips)"
  shows "LibunwindWithRegisters_while lu thumb unw_cursor state
           = Some (add_until_rejected thumb state ips)"
  using assms
proof (induction n arbitrary: unw_cursor state ips)
  case 0
  then have e: "ips = []" "unw_cursor' = unw_cursor" by simp_all
  obtain rc c1 where st: "unw_step lu unw_cursor = (rc, c1)" by (cases "unw_step lu unw_cursor")
  show ?case
  proof (cases "0 < rc")
    case False
    then show ?thesis
      unfolding e using LibunwindWithRegisters_while_stop [OF st] by simp
  next
    case True
    with "0.prems"(2) st have "address_count_max \<le> address_count state" by (simp add: e)
    then have "BacktraceState_AddAddress thumb state
       (case unw_get_reg lu c1 UNW_REG_IP of None \<Rightarrow> 0 | Some v \<Rightarrow> v) = (False, state)"
      by (rule AddAddress_full)
    from LibunwindWithRegisters_while_step [OF st True this] show ?thesis
      unfolding e by simp
  qed
next
  case (Suc n)
  obtain rc c1 where st: "unw_step lu unw_cursor = (rc, c1)" by (cases "unw_step lu unw_cursor")
  define ip where "ip = (case unw_get_reg lu c1 UNW_REG_IP of None \<Rightarrow> 0 | Some v \<Rightarrow> v)"
  from Suc.prems(1) st have rc: "0 < rc"
    by (simp split: if_splits)
  from Suc.prems(1) st rc obtain ips' where
    r: "unw_steps lu c1 n = Some (ips', unw_cursor')" and i: "ips = ip # ips'"
    by (auto simp add: ip_def split: option.splits)
  obtain ok s1 where a: "BacktraceState_AddAddress thumb state ip = (ok, s1)"
    by (cases "BacktraceState_AddAddress thumb state ip")
  note w = LibunwindWithRegisters_while_step [OF st rc a [unfolded ip_def]]
  show ?case
  proof (cases ok)
    case False
    with a w show ?thesis
      unfolding i by simp
  next
    case True
    from Suc.prems(2) a True have "fst (unw_step lu unw_cursor') \<le> 0
         \<or> address_count_max \<le> address_count (add_until_rejected thumb s1 ips')"
      by (simp add: i)
    from Suc.IH [OF r this] a w True show ?thesis
      unfolding i by simp
  qed
qed

text \<open>
  C7. \<^verbatim>\<open>LibunwindWithRegisters\<close> adds the program counter of the fault context to the state
  before the first \<^verbatim>\<open>unw_step\<close>, and then adds the instruction pointer read after each
  successful step, in order, stopping at the first rejected insertion. If the cursor
  seeded with the registers of the fault context yields \<open>n\<close> frames with instruction
  pointers \<open>ips\<close>, and after them either \<^verbatim>\<open>unw_step\<close> reports no further frame or the
  buffer is full, the function returns, with exactly that collection as its state;
  further frames, even endlessly many, are not walked once the buffer is full.
\<close>

theorem LibunwindWithRegisters_walk:
  assumes "unw_steps lu
             (LibunwindWithRegisters_set_registers lu (uc_mcontext (signal_ucontext state))
                (unw_init_local lu)) n
           = Some (ips, unw_cursor)"
    and "fst (unw_step lu unw_cursor) \<le> 0
         \<or> address_count_max \<le> address_count
              (add_until_rejected thumb
                 (snd (BacktraceState_AddAddress thumb state
                         (arm_pc (uc_mcontext (signal_ucontext state))))) ips)"
  shows "LibunwindWithRegisters lu thumb state =
           Some (add_until_rejected thumb
                   (snd (BacktraceState_AddAddress thumb state
                           (arm_pc (uc_mcontext (signal_ucontext state))))) ips)"
  unfolding LibunwindWithRegisters_def Let_def
  using assms by (rule LibunwindWithRegisters_while_walk)

theorem LibunwindWithRegisters_walk_witness:
  "LibunwindWithRegisters (example_libunwind 3) True (BacktraceState_Init example_ucontext) =
     Some (add_until_rejected True
             (snd (BacktraceState_AddAddress True (BacktraceState_Init example_ucontext)
                     (arm_pc (uc_mcontext (signal_ucontext (BacktraceState_Init example_ucontext))))))
             [0x8110, 0x8120, 0x8130])
   \<and> stored_addresses
         (add_until_rejected True
            (snd (BacktraceState_AddAddress True (BacktraceState_Init example_ucontext)
                    (arm_pc (uc_mcontext (signal_ucontext (BacktraceState_Init example_ucontext))))))
            [0x8110, 0x8120, 0x8130])
       = [0x8000, 0x8110, 0x8120, 0x8130]
   \<and> LibunwindWithRegisters endless_libunwind True (BacktraceState_Init example_ucontext) =
       Some (add_until_rejected True
               (snd (BacktraceState_AddAddress True (BacktraceState_Init example_ucontext)
                       (arm_pc (uc_mcontext (signal_ucontext (BacktraceState_Init example_ucontext))))))
               (map (\<lambda>k. 0x8100 + 0x10 * of_nat k) [1..<30]))
   \<and> address_count
         (add_until_rejected True
            (snd (BacktraceState_AddAddress True (BacktraceState_Init example_ucontext)
                    (arm_pc (uc_mcontext (signal_ucontext (BacktraceState_Init example_ucontext))))))
            (map (\<lambda>k. 0x8100 + 0x10 * of_nat k) [1..<30]))
       = address_count_max"
proof -
  have y1: "unw_steps (example_libunwind 3)
             (LibunwindWithRegisters_set_registers (example_libunwind 3)
                (uc_mcontext (signal_ucontext (BacktraceState_Init example_ucontext)))
                (unw_init_local (example_libunwind 3))) 3
           = Some ([0x8110, 0x8120, 0x8130], 3)"
    by code_simp
  have e1: "fst (unw_step (example_libunwind 3) 3) \<le> 0
         \<or> address_count_max \<le> address_count
              (add_until_rejected True
                 (snd (BacktraceState_AddAddress True (BacktraceState_Init example_ucontext)
                         (arm_pc (uc_mcontext (signal_ucontext (BacktraceState_Init example_ucontext))))))
                 [0x8110, 0x8120, 0x8130])"
    by (simp add: example_libunwind_def)
  have s1: "stored_addresses
         (add_until_rejected True
            (snd (BacktraceState_AddAddress True (BacktraceState_Init example_ucontext)
                    (arm_pc (uc_mcontext (signal_ucontext (BacktraceState_Init example_ucontext))))))
            [0x8110, 0x8120, 0x8130])
       = [0x8000, 0x8110, 0x8120, 0x8130]"
    by code_simp
  have y2: "unw_steps endless_libunwind
             (LibunwindWithRegisters_set_registers endless_libunwind
                (uc_mcontext (signal_ucontext (BacktraceState_Init example_ucontext)))
                (unw_init_local endless_libunwind)) 29
           = Some (map (\<lambda>k. 0x8100 + 0x10 * of_nat k) [1..<30], 29)"
    by code_simp
  have f2: "address_count
         (add_until_rejected True
            (snd (BacktraceState_AddAddress True (BacktraceState_Init example_ucontext)
                    (arm_pc (uc_mcontext (signal_ucontext (BacktraceState_Init example_ucontext))))))
            (map (\<lambda>k. 0x8100 + 0x10 * of_nat k) [1..<30]))
       = address_count_max"
    by code_simp
  then have e2: "fst (unw_step endless_libunwind 29) \<le> 0
         \<or> address_count_max \<le> address_count
         (add_until_rejected True
            (snd (BacktraceState_AddAddress True (BacktraceState_Init example_ucontext)
                    (arm_pc (uc_mcontext (signal_ucontext (BacktraceState_Init example_ucontext))))))
            (map (\<lambda>k. 0x8100 + 0x10 * of_nat k) [1..<30]))"
    by simp
  show ?thesis
    using LibunwindWithRegisters_walk [OF y1 e1] LibunwindWithRegisters_walk [OF y2 e2] s1 f2
    by blast
qed

end
